theory Spec2Isabelle
  imports Main "HOL-Library.AList"
begin

section \<open>Values shared by the handlers\<close>

text \<open>
  A JavaScript error object, as far as the handlers read it: its \<open>message\<close> and its optional
  \<open>statusCode\<close> and \<open>status\<close>. \<open>SyntaxError\<close> and \<open>TypeError\<close> are the exceptions the runtime itself
  throws (\<open>JSON.parse\<close> on malformed text, a property read on \<open>undefined\<close>).
\<close>

datatype err =
    Err (message: string) (statusCode: "nat option") (status: "nat option")
  | SyntaxError
  | TypeError

text \<open>A \<open>Buffer\<close> is a sequence of bytes; a HOL character is one byte.\<close>

type_synonym buffer = string

text \<open>
  One index of a JavaScript array: never assigned (a hole, which \<open>forEach\<close> skips),
  assigned \<open>undefined\<close>, or assigned a value.
\<close>

datatype 'a slot = Hole | Undefined | Value 'a

text \<open>
  An object of the blob store (Cloud Files): the bytes written to the upload stream, the
  content type and the headers given to \<open>client.upload\<close>. The store maps a container and a
  remote name to the object held there.
\<close>

record blob =
  body :: buffer
  contentType :: "string option"
  headers :: "(string \<times> string) list"

type_synonym blobstore = "string \<times> string \<Rightarrow> blob option"

text \<open>
  The upload stream of the storage client (pkgcloud, not part of the repository). The
  outcome of the transfer is an input: \<open>Some e\<close> when the stream emits \<open>error\<close> with \<open>e\<close>
  (the store keeps what it had), \<open>None\<close> when it emits \<open>finish\<close> and the object is stored
  under the remote name.
\<close>

definition client_upload ::
  "err option \<Rightarrow> string \<Rightarrow> string \<Rightarrow> blob \<Rightarrow> blobstore \<Rightarrow> err option \<times> blobstore" where
  "client_upload fault container remote obj store =
     (case fault of
        Some e \<Rightarrow> (Some e, store)
      | None \<Rightarrow> (None, store((container, remote) \<mapsto> obj)))"

section \<open>Runtime library: decimal keys, paths, hashing, async.map\<close>

text \<open>The decimal numeral of an array index, as \<open>for ... in\<close> enumerates the keys of an array.\<close>

definition digit :: "nat \<Rightarrow> char" where
  "digit n = ''0123456789'' ! (n mod 10)"

fun decimal :: "nat \<Rightarrow> string" where
  "decimal n = (if n < 10 then [digit n] else decimal (n div 10) @ [digit n])"

definition for_in_keys :: "'a list \<Rightarrow> string list" where
  "for_in_keys xs = map decimal [0..<length xs]"

text \<open>
  Node's \<open>path\<close> module on POSIX paths. The last portion of a path is what follows its last
  separator, trailing separators ignored. \<open>path.extname\<close> is the last portion from its last
  dot on, and empty when the last portion has no dot, starts with its only dot, or is \<open>..\<close>.
  \<open>path.basename(p, ext)\<close> is the last portion, without \<open>ext\<close> when it ends with it.
\<close>

definition last_portion :: "string \<Rightarrow> string" where
  "last_portion p =
     rev (takeWhile (\<lambda>c. c \<noteq> CHR ''/'') (dropWhile (\<lambda>c. c = CHR ''/'') (rev p)))"

definition path_extname :: "string \<Rightarrow> string" where
  "path_extname p =
     (let f = last_portion p;
          ext = CHR ''.'' # rev (takeWhile (\<lambda>c. c \<noteq> CHR ''.'') (rev f))
      in if CHR ''.'' \<notin> set f \<or> f = ''..'' \<or> length ext = length f then [] else ext)"

definition path_basename :: "string \<Rightarrow> string \<Rightarrow> string" where
  "path_basename p ext =
     (let f = last_portion p
      in if ext \<noteq> [] \<and> drop (length f - length ext) f = ext
         then take (length f - length ext) f else f)"

text \<open>
  A \<open>crypto.createHash('sha256')\<close> object. Node documents the digest as the digest of all the
  data passed to \<open>update\<close>, in order; the object is modelled by the data it has been given,
  and SHA-256 itself (bytes to lower-case hex) is the parameter \<open>sha256\<close>.
\<close>

type_synonym hash = buffer

definition createHash :: hash where
  "createHash = []"

definition hash_update :: "hash \<Rightarrow> buffer \<Rightarrow> hash" where
  "hash_update h chunk = h @ chunk"

definition hash_digest :: "(buffer \<Rightarrow> string) \<Rightarrow> hash \<Rightarrow> string" where
  "hash_digest sha256 h = sha256 h"

text \<open>
  \<open>async.map(arr, iterator, callback)\<close>. Every item's task is started at once; the tasks
  complete in an order the program does not control, given here as the list \<open>order\<close> of item
  indexes (a permutation of the indexes when every task completes once). A completion stores
  the task's value at the item's index of \<open>results\<close> (\<open>undefined\<close> for a task that failed)
  and reports to \<open>async.each\<close>'s \<open>done\<close>: the first error calls the final callback with the
  error and the results so far, and disarms it; the last success calls it with no error.
  The state of a run is the results array, the count of successes and the call of the final
  callback, once made. A task's effect on the backends takes place at its completion.
\<close>

type_synonym 'b map_run = "'b slot list \<times> nat \<times> (err option \<times> 'b slot list) option"

definition async_map_done ::
  "('a \<Rightarrow> 's \<Rightarrow> (err + 'b) \<times> 's) \<Rightarrow> 'a list \<Rightarrow> nat \<Rightarrow> 'b map_run \<times> 's \<Rightarrow> 'b map_run \<times> 's" where
  "async_map_done iterator arr i run =
     (case run of ((results, completed, final), st) \<Rightarrow>
        if i < length arr then
          (case iterator (arr ! i) st of
             (Inl e, st') \<Rightarrow>
               (let results' = results[i := Undefined]
                in ((results', completed,
                     (case final of None \<Rightarrow> Some (Some e, results') | Some c \<Rightarrow> Some c)), st'))
           | (Inr v, st') \<Rightarrow>
               (let results' = results[i := Value v]; completed' = completed + 1
                in ((results', completed',
                     (case final of
                        None \<Rightarrow> if completed' \<ge> length arr then Some (None, results') else None
                      | Some c \<Rightarrow> Some c)), st')))
        else run)"

definition async_map ::
  "nat list \<Rightarrow> ('a \<Rightarrow> 's \<Rightarrow> (err + 'b) \<times> 's) \<Rightarrow> 'a list \<Rightarrow> 's
     \<Rightarrow> (err option \<times> 'b slot list) option \<times> 's" where
  "async_map order iterator arr st =
     (if arr = [] then (Some (None, []), st)
      else (case fold (async_map_done iterator arr) order
                   ((replicate (length arr) Hole, 0, None), st) of
              ((results, completed, final), st') \<Rightarrow> (final, st')))"

section \<open>The /assets endpoint (assets.js)\<close>

text \<open>An uploaded file of \<open>req.files\<close>: its \<open>path\<close> on disk, its \<open>name\<close> and its \<open>type\<close>.\<close>

record asset =
  asset_path :: string
  asset_name :: string
  asset_type :: string

text \<open>The object \<open>fingerprint\<close> passes on: \<open>original\<close>, \<open>chunks\<close>, \<open>filename\<close> and \<open>type\<close>.\<close>

record fingerprinted =
  original :: string
  chunks :: "buffer list"
  filename :: string
  ftype :: string

text \<open>
  \<open>fs.createReadStream(path)\<close> is the parameter \<open>fs\<close>: the chunks of the \<open>data\<close> events, then
  \<open>None\<close> for \<open>end\<close> or \<open>Some e\<close> for \<open>error\<close>.
\<close>

type_synonym filesystem = "string \<Rightarrow> buffer list \<times> err option"

text \<open>The \<open>data\<close> handler of \<open>fingerprint\<close>: update the hash, push the chunk onto the array
  of chunks (\<open>read\<close> here, as \<open>chunks\<close> names the field that carries it on).\<close>

definition on_data :: "buffer \<Rightarrow> hash \<times> buffer list \<Rightarrow> hash \<times> buffer list" where
  "on_data chunk acc = (case acc of (sha256sum, read) \<Rightarrow>
     (hash_update sha256sum chunk, read @ [chunk]))"

text \<open>The stream read to its end: the hash object and the chunks array after every \<open>data\<close> event.\<close>

definition read_stream :: "buffer list \<Rightarrow> hash \<times> buffer list" where
  "read_stream events = fold on_data events (createHash, [])"

definition fingerprint ::
  "(buffer \<Rightarrow> string) \<Rightarrow> filesystem \<Rightarrow> asset \<Rightarrow> err + fingerprinted" where
  "fingerprint sha256 fs a =
     (case fs (asset_path a) of
        (events, Some e) \<Rightarrow> Inl e
      | (events, None) \<Rightarrow>
          (case read_stream events of (sha256sum, read) \<Rightarrow>
             (let digest = hash_digest sha256 sha256sum;
                  ext = path_extname (asset_name a);
                  basename = path_basename (asset_name a) ext;
                  fingerprinted = basename @ ''-'' @ digest @ ext
              in Inr \<lparr>original = asset_name a, chunks = read,
                       filename = fingerprinted, ftype = asset_type a\<rparr>)))"

text \<open>
  \<open>publish\<close>: the loop \<open>for (var chunk in asset.chunks) up.write(chunk)\<close> binds \<open>chunk\<close> to each
  key of the array, so what is written is the keys' text. \<open>upload_fault\<close> gives the outcome
  of the transfer to a remote name.
\<close>

definition publish ::
  "string \<Rightarrow> (string \<Rightarrow> err option) \<Rightarrow> fingerprinted \<Rightarrow> blobstore
     \<Rightarrow> (err + fingerprinted) \<times> blobstore" where
  "publish asset_container upload_fault a store =
     (let written = concat (for_in_keys (chunks a));
          up = \<lparr>body = written, contentType = Some (ftype a),
                headers = [(''Access-Control-Allow-Origin'', ''*'')]\<rparr>
      in case client_upload (upload_fault (filename a)) asset_container (filename a) up store of
           (Some e, store') \<Rightarrow> (Inl e, store')
         | (None, store') \<Rightarrow> (Inr a, store'))"

text \<open>\<open>handleAsset\<close>: the waterfall of \<open>fingerprint\<close> and \<open>publish\<close>.\<close>

definition handleAsset ::
  "(buffer \<Rightarrow> string) \<Rightarrow> filesystem \<Rightarrow> string \<Rightarrow> (string \<Rightarrow> err option) \<Rightarrow> asset \<Rightarrow> blobstore
     \<Rightarrow> (err + fingerprinted) \<times> blobstore" where
  "handleAsset sha256 fs asset_container upload_fault a store =
     (case fingerprint sha256 fs a of
        Inl e \<Rightarrow> (Inl e, store)
      | Inr r \<Rightarrow> publish asset_container upload_fault r store)"

text \<open>
  What \<open>accept\<close> does to the response: \<open>res.status\<close>, \<open>res.send\<close> with the error object or
  the summary, and \<open>next()\<close>.
\<close>

datatype sent = ErrorObject string | Summary "string \<Rightarrow> string option"

datatype action = Status nat | Send sent | Next

text \<open>
  The body of \<open>results.forEach\<close>: \<open>summary[result.original] = "wat"\<close>. Reading \<open>original\<close>
  of \<open>undefined\<close> throws a TypeError, which ends the loop and the callback.
\<close>

fun forEach_summary ::
  "fingerprinted slot list \<Rightarrow> (string \<Rightarrow> string option) \<Rightarrow> err + (string \<Rightarrow> string option)" where
  "forEach_summary [] summary = Inr summary"
| "forEach_summary (Hole # rs) summary = forEach_summary rs summary"
| "forEach_summary (Undefined # rs) summary = Inl TypeError"
| "forEach_summary (Value result # rs) summary =
     forEach_summary rs (summary(original result \<mapsto> ''wat''))"

text \<open>The statements of the callback after its \<open>if (err)\<close> block.\<close>

definition accept_summarise :: "fingerprinted slot list \<Rightarrow> action list \<times> err option" where
  "accept_summarise results =
     (case forEach_summary results Map.empty of
        Inl thrown \<Rightarrow> ([], Some thrown)
      | Inr summary \<Rightarrow> ([Status 200, Send (Summary summary), Next], None))"

text \<open>
  The callback \<open>accept\<close> gives to \<open>async.map\<close>: the actions on the response, and the
  exception it ends with, if any. The \<open>if (err)\<close> block has no \<open>return\<close>.
\<close>

definition accept_callback ::
  "err option \<Rightarrow> fingerprinted slot list \<Rightarrow> action list \<times> err option" where
  "accept_callback error results =
     (let reported =
            (case error of
               Some e \<Rightarrow> [Status 500,
                          Send (ErrorObject ''Unable to upload one or more assets!''), Next]
             | None \<Rightarrow> [])
      in case accept_summarise results of (acts, thrown) \<Rightarrow> (reported @ acts, thrown))"

text \<open>
  \<open>exports.accept\<close>, for \<open>req.files\<close> as the list of its properties. The result is \<open>None\<close>
  while the callback has not been called.
\<close>

definition accept ::
  "(buffer \<Rightarrow> string) \<Rightarrow> filesystem \<Rightarrow> string \<Rightarrow> (string \<Rightarrow> err option) \<Rightarrow> nat list
     \<Rightarrow> (string \<times> asset) list \<Rightarrow> blobstore
     \<Rightarrow> (action list \<times> err option) option \<times> blobstore" where
  "accept sha256 fs asset_container upload_fault order files store =
     (let assetData = List.map_filter (map_of files) (map fst files)
      in case async_map order (handleAsset sha256 fs asset_container upload_fault)
                assetData store of
           (None, store') \<Rightarrow> (None, store')
         | (Some (error, results), store') \<Rightarrow> (Some (accept_callback error results), store'))"

section \<open>JavaScript values and built-ins of the content handlers\<close>

text \<open>
  A JavaScript value as the envelope handlers meet it: what \<open>JSON.parse\<close> produces, and
  \<open>undefined\<close>, which a property read of an absent key yields. An object is the list of its
  properties in enumeration order; a property read takes the first entry of the key.
  Numbers are integers: the handlers do no arithmetic on them.
\<close>

datatype json =
    JUndefined
  | JNull
  | JBool bool
  | JNumber int
  | JString string
  | JArray "json list"
  | JObject "(string \<times> json) list"

definition get_prop :: "(string \<times> json) list \<Rightarrow> string \<Rightarrow> json" where
  "get_prop obj key = (case map_of obj key of Some v \<Rightarrow> v | None \<Rightarrow> JUndefined)"

definition set_prop :: "(string \<times> json) list \<Rightarrow> string \<Rightarrow> json \<Rightarrow> (string \<times> json) list" where
  "set_prop obj key v = AList.update key v obj"

text \<open>The names of the top-level fields of a value: the keys of an object, none otherwise.\<close>

fun field_names :: "json \<Rightarrow> string list" where
  "field_names (JObject obj) = map fst obj"
| "field_names v = []"

text \<open>
  \<open>encodeURIComponent\<close> on a UTF-8 string: letters, digits and \<open>- _ . ! ~ * ' ( )\<close> stay,
  every other byte becomes \<open>%\<close> and its two upper-case hex digits.
\<close>

definition hexdigit :: "nat \<Rightarrow> char" where
  "hexdigit n = ''0123456789ABCDEF'' ! (n mod 16)"

definition unreserved :: "char \<Rightarrow> bool" where
  "unreserved c \<longleftrightarrow>
     c \<in> set (''ABCDEFGHIJKLMNOPQRSTUVWXYZabcdefghijklmnopqrstuvwxyz0123456789-_.!~*()''
              @ [CHR 0x27])"

definition encodeURIComponent :: "string \<Rightarrow> string" where
  "encodeURIComponent s =
     concat (map (\<lambda>c. if unreserved c then [c]
                       else [CHR ''%'', hexdigit (of_char c div 16), hexdigit (of_char c)]) s)"

text \<open>
  \<open>_.pick(object, keys)\<close> of lodash: a new object with those of \<open>keys\<close>, in their order, that
  are properties of \<open>object\<close>, each with the object's value; empty for a value with none of
  them (\<open>null\<close>, a string, a number, an array).
\<close>

fun pick :: "json \<Rightarrow> string list \<Rightarrow> (string \<times> json) list" where
  "pick (JObject obj) keys = List.map_filter (\<lambda>k. map_option (Pair k) (map_of obj k)) keys"
| "pick v keys = []"

text \<open>
  \<open>JSON.stringify\<close> and \<open>JSON.parse\<close> are parameters of the handlers that call them:
  \<open>stringify\<close> gives the text of a value, \<open>parse\<close> the value of a text, or \<open>None\<close> where
  \<open>JSON.parse\<close> throws a SyntaxError.
\<close>

type_synonym stringifier = "json \<Rightarrow> string"
type_synonym parser = "string \<Rightarrow> json option"

section \<open>The backends of the content handlers\<close>

text \<open>
  The state the envelope handlers work on: the Cloud Files store behind
  \<open>connection.client\<close>, and the Mongo collections \<open>envelopes\<close> and \<open>layoutAssets\<close> behind
  \<open>connection.db\<close>, each the list of its documents in insertion order.
\<close>

record backends =
  files :: blobstore
  envelopes :: "(string \<times> json) list list"
  layoutAssets :: "(string \<times> json) list list"

text \<open>
  Modelled from the spec: the download and the removal of the storage client (pkgcloud, not
  part of the repository). A download with no fault yields the bytes of the object, and an
  error of status 404 where the store has no object of that name (NotFound, 4.1 and 6); a
  removal with no fault leaves no object under the name. A fault is the error the client
  reports instead, and changes nothing.
\<close>

definition client_download :: "err option \<Rightarrow> string \<Rightarrow> string \<Rightarrow> blobstore \<Rightarrow> err + buffer" where
  "client_download fault container remote store =
     (case fault of
        Some e \<Rightarrow> Inl e
      | None \<Rightarrow>
          (case store (container, remote) of
             None \<Rightarrow> Inl (Err ''Not Found'' (Some 404) None)
           | Some obj \<Rightarrow> Inr (body obj)))"

definition client_removeFile ::
  "err option \<Rightarrow> string \<Rightarrow> string \<Rightarrow> blobstore \<Rightarrow> err option \<times> blobstore" where
  "client_removeFile fault container remote store =
     (case fault of
        Some e \<Rightarrow> (Some e, store)
      | None \<Rightarrow> (None, store((container, remote) := None)))"

text \<open>
  What the handlers hand to the framework: a response with its status and body, an error
  given to \<open>next\<close> (\<open>next.ifError\<close> throws it back to the framework, which does the same),
  or an exception nothing catches.
\<close>

datatype reply = Reply nat "json option" | Failed err | Uncaught err

text \<open>\<open>err.statusCode || 500\<close>.\<close>

definition statusCode_or_500 :: "err \<Rightarrow> nat" where
  "statusCode_or_500 e =
     (case e of
        Err m (Some c) s \<Rightarrow> if c = 0 then 500 else c
      | _ \<Rightarrow> 500)"

section \<open>The content handlers, first version (waterfall)\<close>

text \<open>The object \<open>store\<close> builds from the request: \<open>contentID\<close> and \<open>envelope\<close>.\<close>

record doc =
  contentID :: string
  envelope :: json

text \<open>
  \<open>downloadContent\<close>: the chunks of the download, concatenated and parsed; the callback gets
  the object \<open>{envelope: envelope}\<close>. A SyntaxError of \<open>JSON.parse\<close> is thrown inside the
  \<open>end\<close> handler and never reaches the callback: it is the result \<open>Inl SyntaxError\<close>.
\<close>

definition downloadContent ::
  "parser \<Rightarrow> string \<Rightarrow> err option \<Rightarrow> string \<Rightarrow> backends \<Rightarrow> err + (string \<times> json) list" where
  "downloadContent parse contentContainer download_fault cid st =
     (case client_download download_fault contentContainer (encodeURIComponent cid) (files st) of
        Inl e \<Rightarrow> Inl e
      | Inr complete \<Rightarrow>
          (case parse complete of
             None \<Rightarrow> Inl SyntaxError
           | Some env \<Rightarrow> Inr [(''envelope'', env)]))"

text \<open>
  \<open>injectAssetVars\<close>: the loop \<open>assets[assetVar] = assetVar.publicURL\<close> uses the document
  itself as the key, which JavaScript converts to the string \<open>[object Object]\<close>.
\<close>

definition object_toString :: "(string \<times> json) list \<Rightarrow> string" where
  "object_toString obj = ''[object Object]''"

definition collect_assets :: "(string \<times> json) list list \<Rightarrow> (string \<times> json) list" where
  "collect_assets assetVars =
     fold (\<lambda>assetVar assets.
             set_prop assets (object_toString assetVar) (get_prop assetVar ''publicURL''))
          assetVars []"

definition injectAssetVars ::
  "err option \<Rightarrow> (string \<times> json) list \<Rightarrow> backends \<Rightarrow> err + (string \<times> json) list" where
  "injectAssetVars find_fault d st =
     (case find_fault of
        Some e \<Rightarrow> Inl e
      | None \<Rightarrow> Inr (set_prop d ''assets'' (JObject (collect_assets (layoutAssets st)))))"

definition storeEnvelope ::
  "stringifier \<Rightarrow> string \<Rightarrow> err option \<Rightarrow> doc \<Rightarrow> backends \<Rightarrow> (err + doc) \<times> backends" where
  "storeEnvelope stringify contentContainer upload_fault d st =
     (case client_upload upload_fault contentContainer (encodeURIComponent (contentID d))
             \<lparr>body = stringify (envelope d), contentType = None, headers = []\<rparr> (files st) of
        (Some e, store') \<Rightarrow> (Inl e, st\<lparr>files := store'\<rparr>)
      | (None, store') \<Rightarrow> (Inr d, st\<lparr>files := store'\<rparr>))"

text \<open>
  \<open>indexEnvelope\<close>: the document given to \<open>insertOne\<close> is the picked fields and
  \<open>content_id\<close>. (The identifier the database adds to what it stores is not modelled.)
\<close>

definition index_document :: "doc \<Rightarrow> (string \<times> json) list" where
  "index_document d =
     (let subdoc = pick (envelope d) [''title'', ''publish_date'', ''tags'', ''categories'']
      in set_prop subdoc ''content_id'' (JString (contentID d)))"

definition indexEnvelope :: "err option \<Rightarrow> doc \<Rightarrow> backends \<Rightarrow> (err + doc) \<times> backends" where
  "indexEnvelope insert_fault d st =
     (case insert_fault of
        Some e \<Rightarrow> (Inl e, st)
      | None \<Rightarrow> (Inr d, st\<lparr>envelopes := envelopes st @ [index_document d]\<rparr>))"

definition retrieve ::
  "parser \<Rightarrow> string \<Rightarrow> err option \<Rightarrow> err option \<Rightarrow> string \<Rightarrow> backends \<Rightarrow> reply" where
  "retrieve parse contentContainer download_fault find_fault cid st =
     (case downloadContent parse contentContainer download_fault cid st of
        Inl SyntaxError \<Rightarrow> Uncaught SyntaxError
      | Inl e \<Rightarrow> Reply (statusCode_or_500 e) None
      | Inr d \<Rightarrow>
          (case injectAssetVars find_fault d st of
             Inl e \<Rightarrow> Reply (statusCode_or_500 e) None
           | Inr d' \<Rightarrow> Reply 200 (Some (JObject d'))))"

definition store ::
  "stringifier \<Rightarrow> string \<Rightarrow> err option \<Rightarrow> err option \<Rightarrow> string \<Rightarrow> json \<Rightarrow> backends
     \<Rightarrow> reply \<times> backends" where
  "store stringify contentContainer upload_fault insert_fault cid reqbody st =
     (let d = \<lparr>contentID = cid, envelope = reqbody\<rparr>
      in case storeEnvelope stringify contentContainer upload_fault d st of
           (Inl e, st1) \<Rightarrow> (Failed e, st1)
         | (Inr d1, st1) \<Rightarrow>
             (case indexEnvelope insert_fault d1 st1 of
                (Inl e, st2) \<Rightarrow> (Failed e, st2)
              | (Inr d2, st2) \<Rightarrow> (Reply 204 None, st2)))"

definition delete ::
  "string \<Rightarrow> err option \<Rightarrow> string \<Rightarrow> backends \<Rightarrow> reply \<times> backends" where
  "delete contentContainer remove_fault cid st =
     (case client_removeFile remove_fault contentContainer (encodeURIComponent cid) (files st) of
        (Some e, store') \<Rightarrow> (Failed e, st\<lparr>files := store'\<rparr>)
      | (None, store') \<Rightarrow> (Reply 204 None, st\<lparr>files := store'\<rparr>))"

section \<open>The content handlers, second version (parallel)\<close>

text \<open>
  \<open>async.parallel(tasks, callback)\<close> is \<open>async.map\<close> over the tasks, each called with its
  callback.
\<close>

definition async_parallel ::
  "nat list \<Rightarrow> ('s \<Rightarrow> (err + 'b) \<times> 's) list \<Rightarrow> 's \<Rightarrow> (err option \<times> 'b slot list) option \<times> 's" where
  "async_parallel order tasks st = async_map order (\<lambda>task. task) tasks st"

text \<open>
  Modelled from the spec: the module \<open>../storage\<close>, which is not among the sources.
  \<open>storeContent\<close> writes the JSON text of the envelope to the blob store under the URL-escaped
  content ID; \<open>indexContent\<close> inserts the document of \<open>content_id\<close> and the projected fields
  into the index (4.1, 6); \<open>deleteContent\<close> deletes the object of the content ID and
  \<open>unindexContent\<close> the index documents of the content ID, succeeding where there is none
  (4.1). A fault is the error the backend reports instead, and changes nothing.
\<close>

definition storage_storeContent ::
  "stringifier \<Rightarrow> string \<Rightarrow> err option \<Rightarrow> string \<Rightarrow> json \<Rightarrow> backends \<Rightarrow> (err + unit) \<times> backends" where
  "storage_storeContent stringify contentContainer fault cid env st =
     (case client_upload fault contentContainer (encodeURIComponent cid)
             \<lparr>body = stringify env, contentType = None, headers = []\<rparr> (files st) of
        (Some e, store') \<Rightarrow> (Inl e, st\<lparr>files := store'\<rparr>)
      | (None, store') \<Rightarrow> (Inr (), st\<lparr>files := store'\<rparr>))"

definition storage_indexContent ::
  "err option \<Rightarrow> string \<Rightarrow> json \<Rightarrow> backends \<Rightarrow> (err + unit) \<times> backends" where
  "storage_indexContent fault cid env st =
     (case fault of
        Some e \<Rightarrow> (Inl e, st)
      | None \<Rightarrow>
          (Inr (), st\<lparr>envelopes :=
                        envelopes st @ [index_document \<lparr>contentID = cid, envelope = env\<rparr>]\<rparr>))"

definition storage_deleteContent ::
  "string \<Rightarrow> err option \<Rightarrow> string \<Rightarrow> backends \<Rightarrow> (err + unit) \<times> backends" where
  "storage_deleteContent contentContainer fault cid st =
     (case client_removeFile fault contentContainer (encodeURIComponent cid) (files st) of
        (Some e, store') \<Rightarrow> (Inl e, st\<lparr>files := store'\<rparr>)
      | (None, store') \<Rightarrow> (Inr (), st\<lparr>files := store'\<rparr>))"

definition storage_unindexContent ::
  "err option \<Rightarrow> string \<Rightarrow> backends \<Rightarrow> (err + unit) \<times> backends" where
  "storage_unindexContent fault cid st =
     (case fault of
        Some e \<Rightarrow> (Inl e, st)
      | None \<Rightarrow>
          (Inr (), st\<lparr>envelopes :=
                        filter (\<lambda>d. get_prop d ''content_id'' \<noteq> JString cid) (envelopes st)\<rparr>))"

text \<open>
  The callback both handlers give to \<open>async.parallel\<close>: \<open>next(err)\<close> on an error, the status
  204 otherwise. The reply is \<open>None\<close> while the callback has not been called. The delete
  handler first sets \<open>err.statusCode = err.statusCode || err.status || 500\<close>, which
  \<open>with_statusCode\<close> does to an error a backend reports.
\<close>

definition with_statusCode :: "err \<Rightarrow> err" where
  "with_statusCode e =
     (case e of
        Err m c s \<Rightarrow>
          Err m (Some (case c of
                         Some n \<Rightarrow> if n \<noteq> 0 then n
                                   else (case s of Some k \<Rightarrow> if k \<noteq> 0 then k else 500
                                         | None \<Rightarrow> 500)
                       | None \<Rightarrow> (case s of Some k \<Rightarrow> if k \<noteq> 0 then k else 500
                                   | None \<Rightarrow> 500))) s
      | _ \<Rightarrow> e)"

definition parallel_reply :: "(err option \<times> unit slot list) option \<Rightarrow> reply option" where
  "parallel_reply final =
     (case final of
        None \<Rightarrow> None
      | Some (Some e, results) \<Rightarrow> Some (Failed e)
      | Some (None, results) \<Rightarrow> Some (Reply 204 None))"

definition store_parallel ::
  "stringifier \<Rightarrow> string \<Rightarrow> err option \<Rightarrow> err option \<Rightarrow> nat list \<Rightarrow> string \<Rightarrow> json \<Rightarrow> backends
     \<Rightarrow> reply option \<times> backends" where
  "store_parallel stringify contentContainer kv_fault fts_fault order cid env st =
     (let kvStore = storage_storeContent stringify contentContainer kv_fault cid env;
          ftsStore = storage_indexContent fts_fault cid env
      in case async_parallel order [kvStore, ftsStore] st of
           (final, st') \<Rightarrow> (parallel_reply final, st'))"

definition delete_parallel ::
  "string \<Rightarrow> err option \<Rightarrow> err option \<Rightarrow> nat list \<Rightarrow> string \<Rightarrow> backends
     \<Rightarrow> reply option \<times> backends" where
  "delete_parallel contentContainer kv_fault fts_fault order cid st =
     (let kvDelete = storage_deleteContent contentContainer kv_fault cid;
          ftsDelete = storage_unindexContent fts_fault cid
      in case async_parallel order [kvDelete, ftsDelete] st of
           (final, st') \<Rightarrow>
             (parallel_reply (map_option (map_prod (map_option with_statusCode) id) final), st'))"

text \<open>The two orders in which the two tasks of a handler can complete.\<close>

definition completion_order :: "bool \<Rightarrow> nat list" where
  "completion_order kv_first = (if kv_first then [0, 1] else [1, 0])"

text \<open>
  An invariant of a run of \<open>async.map\<close> over \<open>n\<close> items: the results array has \<open>n\<close>
  indexes, and once the final callback has been called with an error, the results it was
  given hold \<open>undefined\<close> at some index (that of the item that failed).
\<close>

definition failed_has_undefined :: "nat \<Rightarrow> 'b map_run \<Rightarrow> bool" where
  "failed_has_undefined n run =
     (case run of (results, completed, final) \<Rightarrow>
        length results = n \<and>
        (case final of Some (Some e, rs) \<Rightarrow> Undefined \<in> set rs | _ \<Rightarrow> True))"

section \<open>Properties of the /assets endpoint\<close>

lemma fold_on_data: "fold on_data events (h, cs) = (h @ concat events, cs @ events)"
  by (induction events arbitrary: h cs) (simp_all add: on_data_def hash_update_def)

lemma read_stream_eq: "read_stream events = (concat events, events)"
  by (simp add: read_stream_def createHash_def fold_on_data)

lemma fingerprint_end:
  assumes "fs (asset_path a) = (events, None)"
  shows "fingerprint sha256 fs a =
           Inr \<lparr>original = asset_name a, chunks = events,
                filename = path_basename (asset_name a) (path_extname (asset_name a)) @ ''-''
                             @ sha256 (concat events) @ path_extname (asset_name a),
                ftype = asset_type a\<rparr>"
  using assms by (simp add: fingerprint_def read_stream_eq hash_digest_def Let_def)


text \<open>The extension is a suffix of the last portion of a path that has a dot.\<close>

lemma ext_suffix:
  assumes "CHR ''.'' \<in> set f"
  shows "\<exists>stem. f = stem @ CHR ''.'' # rev (takeWhile (\<lambda>c. c \<noteq> CHR ''.'') (rev f))"
proof -
  let ?P = "\<lambda>c. c \<noteq> CHR ''.''"
  from assms have "dropWhile ?P (rev f) \<noteq> []" by (simp add: dropWhile_eq_Nil_conv)
  then obtain d where d: "dropWhile ?P (rev f) = CHR ''.'' # d"
    using hd_dropWhile [of ?P "rev f"] by (cases "dropWhile ?P (rev f)") auto
  have "rev f = takeWhile ?P (rev f) @ CHR ''.'' # d"
    using takeWhile_dropWhile_id [of ?P "rev f"] d by simp
  then have "f = rev (takeWhile ?P (rev f) @ CHR ''.'' # d)" by (metis rev_rev_ident)
  then have "f = rev d @ CHR ''.'' # rev (takeWhile ?P (rev f))" by simp
  then show ?thesis by blast
qed

text \<open>\<open>basename(name, extname(name))\<close> and \<open>extname(name)\<close> split the last portion of the name.\<close>

lemma basename_extname:
  "path_basename p (path_extname p) @ path_extname p = last_portion p"
proof (cases "path_extname p = []")
  case True
  then show ?thesis by (simp add: path_basename_def)
next
  case False
  let ?f = "last_portion p"
  let ?ext = "CHR ''.'' # rev (takeWhile (\<lambda>c. c \<noteq> CHR ''.'') (rev ?f))"
  from False have dot: "CHR ''.'' \<in> set ?f" and ext: "path_extname p = ?ext"
    by (auto simp: path_extname_def Let_def split: if_splits)
  from ext_suffix [OF dot] obtain stem where stem: "?f = stem @ ?ext" by blast
  have len: "length ?f - length ?ext = length stem"
    by (subst stem) simp
  have "drop (length stem) ?f = ?ext" "take (length stem) ?f = stem"
    by (subst stem, simp)+
  then show ?thesis
    unfolding path_basename_def Let_def ext len using stem by simp
qed

lemma extname_logo: "path_extname ''logo.png'' = ''.png''"
  by (simp add: path_extname_def last_portion_def)

lemma basename_logo: "path_basename ''logo.png'' ''.png'' = ''logo''"
  by (simp add: path_basename_def last_portion_def)

lemma publish_finish:
  assumes "upload_fault (filename a) = None"
  shows "publish asset_container upload_fault a st =
           (Inr a, st((asset_container, filename a) \<mapsto>
              \<lparr>body = concat (map decimal [0..<length (chunks a)]), contentType = Some (ftype a),
               headers = [(''Access-Control-Allow-Origin'', ''*'')]\<rparr>))"
  using assms by (simp add: publish_def client_upload_def for_in_keys_def)

lemma forEach_values:
  "forEach_summary (map Value rs) summary =
     Inr (\<lambda>k. if k \<in> original ` set rs then Some ''wat'' else summary k)"
proof (induction rs arbitrary: summary)
  case Nil
  then show ?case by simp
next
  case (Cons r rs)
  show ?case by (simp add: Cons.IH fun_eq_iff)
qed

lemma forEach_undefined:
  "Undefined \<in> set results \<Longrightarrow> forEach_summary results summary = Inl TypeError"
  by (induction results summary rule: forEach_summary.induct) auto

lemma async_map_done_undefined:
  assumes "failed_has_undefined (length arr) (fst run)"
  shows "failed_has_undefined (length arr) (fst (async_map_done iterator arr i run))"
proof -
  obtain results completed final st where run: "run = ((results, completed, final), st)"
    by (cases run) auto
  show ?thesis
  proof (cases "i < length arr")
    case False
    with assms show ?thesis by (simp add: async_map_done_def run)
  next
    case True
    obtain r st' where it: "iterator (arr ! i) st = (r, st')" by (cases "iterator (arr ! i) st")
    from assms have len: "length results = length arr"
      by (simp add: failed_has_undefined_def run)
    with True have "Undefined \<in> set (results[i := Undefined])"
      by (simp add: set_update_memI)
    with assms True it len show ?thesis
      by (cases r; cases final)
        (auto simp: async_map_done_def run failed_has_undefined_def Let_def
          split: option.splits)
  qed
qed

lemma async_map_fold_undefined:
  "failed_has_undefined (length arr) (fst run) \<Longrightarrow>
     failed_has_undefined (length arr) (fst (fold (async_map_done iterator arr) order run))"
  by (induction order arbitrary: run) (simp_all add: async_map_done_undefined)

lemma async_map_failed_undefined:
  assumes "async_map order iterator arr st = (Some (Some e, results), st')"
  shows "Undefined \<in> set results"
proof (cases "arr = []")
  case True
  with assms show ?thesis by (simp add: async_map_def)
next
  case False
  let ?run = "fold (async_map_done iterator arr) order ((replicate (length arr) Hole, 0, None), st)"
  have "failed_has_undefined (length arr) (fst ?run)"
    by (rule async_map_fold_undefined) (simp add: failed_has_undefined_def)
  moreover from assms False have "snd (snd (fst ?run)) = Some (Some e, results)"
    by (simp add: async_map_def split: prod.splits)
  ultimately show ?thesis
    by (auto simp: failed_has_undefined_def split: prod.splits)
qed

text \<open>
  After a failure the success path of the callback of \<open>accept\<close> never reaches its response:
  the \<open>forEach\<close> meets the \<open>undefined\<close> result of the failed item and throws.
\<close>

lemma accept_failure_throws:
  assumes "async_map order iterator arr st = (Some (Some e, results), st')"
  shows "accept_summarise results = ([], Some TypeError)"
  using async_map_failed_undefined [OF assms]
  by (simp add: accept_summarise_def forEach_undefined)

text \<open>
  C1. The publish step should upload the bytes the hasher consumed, under the fingerprinted
  name and with the declared content type. The code does not: for the upload \<open>logo.png\<close>
  whose bytes arrive as the one chunk \<open>hello\<close>, the object stored under the fingerprinted
  name has the declared content type and the body \<open>0\<close>, the key of the chunk in the array,
  where the bytes \<open>hello\<close> were to be.
\<close>

theorem publish_writes_keys:
  "handleAsset sha256 (\<lambda>p. ([''hello''], None)) ''assets'' (\<lambda>remote. None)
     \<lparr>asset_path = ''/tmp/upload_1'', asset_name = ''logo.png'', asset_type = ''image/png''\<rparr>
     Map.empty
   = (Inr \<lparr>original = ''logo.png'', chunks = [''hello''],
           filename = ''logo-'' @ sha256 ''hello'' @ ''.png'', ftype = ''image/png''\<rparr>,
      [(''assets'', ''logo-'' @ sha256 ''hello'' @ ''.png'') \<mapsto>
         \<lparr>body = ''0'', contentType = Some ''image/png'',
          headers = [(''Access-Control-Allow-Origin'', ''*'')]\<rparr>])"
  by (simp add: handleAsset_def fingerprint_end publish_finish extname_logo basename_logo
      digit_def)

text \<open>
  C2. A batch whose every step succeeds should be answered with the map from each original
  name to the public URL of the asset. The code answers 200 with a summary whose keys are
  the original names and whose every value is the placeholder \<open>wat\<close>: here for the batch
  of the one upload \<open>logo.png\<close>.
\<close>

theorem accept_summary_wat:
  "accept sha256 (\<lambda>p. ([''hello''], None)) ''assets'' (\<lambda>remote. None) [0]
     [(''file'',
       \<lparr>asset_path = ''/tmp/upload_1'', asset_name = ''logo.png'', asset_type = ''image/png''\<rparr>)]
     Map.empty
   = (Some ([Status 200, Send (Summary [''logo.png'' \<mapsto> ''wat'']), Next], None),
      [(''assets'', ''logo-'' @ sha256 ''hello'' @ ''.png'') \<mapsto>
         \<lparr>body = ''0'', contentType = Some ''image/png'',
          headers = [(''Access-Control-Allow-Origin'', ''*'')]\<rparr>])"
  by (simp add: accept_def List.map_filter_simps async_map_def async_map_done_def
      handleAsset_def fingerprint_end publish_finish extname_logo basename_logo digit_def
      accept_callback_def accept_summarise_def Let_def)

text \<open>
  C6. Two streams that carry the same bytes, however each is cut into chunks, give the hash
  object the same digest, and \<open>fingerprint\<close> gives the same fingerprinted name to the same
  original name.
\<close>

theorem fingerprint_chunk_independent:
  assumes "fs1 (asset_path a) = (cs1, None)"
    and "fs2 (asset_path a) = (cs2, None)"
    and "concat cs1 = concat cs2"
  shows "hash_digest sha256 (fst (read_stream cs1)) = hash_digest sha256 (fst (read_stream cs2))
         \<and> (\<exists>r1 r2. fingerprint sha256 fs1 a = Inr r1 \<and> fingerprint sha256 fs2 a = Inr r2
               \<and> filename r1 = filename r2)"
  using assms by (simp add: fingerprint_end read_stream_eq hash_digest_def)

theorem fingerprint_chunk_independent_witness:
  "\<forall>sha256.
     hash_digest sha256 (fst (read_stream [''he'', ''llo'']))
       = hash_digest sha256 (fst (read_stream [''hello'']))
     \<and> (\<exists>r1 r2.
          fingerprint sha256 (\<lambda>p. ([''he'', ''llo''], None))
            \<lparr>asset_path = ''/tmp/upload_1'', asset_name = ''logo.png'', asset_type = ''image/png''\<rparr>
            = Inr r1
        \<and> fingerprint sha256 (\<lambda>p. ([''hello''], None))
            \<lparr>asset_path = ''/tmp/upload_1'', asset_name = ''logo.png'', asset_type = ''image/png''\<rparr>
            = Inr r2
        \<and> filename r1 = filename r2)"
proof
  fix sha256 :: "buffer \<Rightarrow> string"
  have split: "concat [''he'', ''llo''] = concat [''hello'']" by simp
  show "hash_digest sha256 (fst (read_stream [''he'', ''llo'']))
       = hash_digest sha256 (fst (read_stream [''hello'']))
     \<and> (\<exists>r1 r2.
          fingerprint sha256 (\<lambda>p. ([''he'', ''llo''], None))
            \<lparr>asset_path = ''/tmp/upload_1'', asset_name = ''logo.png'', asset_type = ''image/png''\<rparr>
            = Inr r1
        \<and> fingerprint sha256 (\<lambda>p. ([''hello''], None))
            \<lparr>asset_path = ''/tmp/upload_1'', asset_name = ''logo.png'', asset_type = ''image/png''\<rparr>
            = Inr r2
        \<and> filename r1 = filename r2)"
    by (rule fingerprint_chunk_independent [OF refl refl split])
qed

text \<open>
  C7. When the stream ends, \<open>fingerprint\<close> names the asset by the basename of its original
  name, a hyphen, the hex digest of its bytes and the extension of its original name, where
  basename and extension together are the last portion of the original name.
\<close>

theorem fingerprint_name:
  assumes "fs (asset_path a) = (events, None)"
  shows "fingerprint sha256 fs a =
           Inr \<lparr>original = asset_name a, chunks = events,
                filename = path_basename (asset_name a) (path_extname (asset_name a)) @ ''-''
                             @ sha256 (concat events) @ path_extname (asset_name a),
                ftype = asset_type a\<rparr>
         \<and> path_basename (asset_name a) (path_extname (asset_name a)) @ path_extname (asset_name a)
             = last_portion (asset_name a)"
  using assms by (simp add: fingerprint_end basename_extname)

theorem fingerprint_name_witness:
  "\<forall>sha256.
     fingerprint sha256 (\<lambda>p. ([''he'', ''llo''], None))
       \<lparr>asset_path = ''/tmp/upload_1'', asset_name = ''logo.png'', asset_type = ''image/png''\<rparr>
     = Inr \<lparr>original = ''logo.png'', chunks = [''he'', ''llo''],
            filename = ''logo-'' @ sha256 ''hello'' @ ''.png'', ftype = ''image/png''\<rparr>"
proof
  fix sha256 :: "buffer \<Rightarrow> string"
  show "fingerprint sha256 (\<lambda>p. ([''he'', ''llo''], None))
       \<lparr>asset_path = ''/tmp/upload_1'', asset_name = ''logo.png'', asset_type = ''image/png''\<rparr>
     = Inr \<lparr>original = ''logo.png'', chunks = [''he'', ''llo''],
            filename = ''logo-'' @ sha256 ''hello'' @ ''.png'', ftype = ''image/png''\<rparr>"
    using fingerprint_name [of "\<lambda>p. ([''he'', ''llo''], None)"
        "\<lparr>asset_path = ''/tmp/upload_1'', asset_name = ''logo.png'', asset_type = ''image/png''\<rparr>"
        "[''he'', ''llo'']" sha256, OF refl]
    by (simp add: extname_logo basename_logo)
qed



section \<open>Properties of the content handlers\<close>

lemma storeEnvelope_finish:
  "storeEnvelope stringify c None d st =
     (Inr d, st\<lparr>files := (files st)((c, encodeURIComponent (contentID d)) \<mapsto>
        \<lparr>body = stringify (envelope d), contentType = None, headers = []\<rparr>)\<rparr>)"
  by (simp add: storeEnvelope_def client_upload_def)

lemma storeEnvelope_error:
  "storeEnvelope stringify c (Some e) d st = (Inl e, st)"
  by (simp add: storeEnvelope_def client_upload_def)

lemma store_reply:
  "fst (store stringify c upload_fault insert_fault cid env st) =
     (case upload_fault of
        Some e \<Rightarrow> Failed e
      | None \<Rightarrow> (case insert_fault of Some e \<Rightarrow> Failed e | None \<Rightarrow> Reply 204 None))"
  by (simp add: store_def storeEnvelope_finish storeEnvelope_error indexEnvelope_def
      split: option.splits)

lemma store_files:
  "files (snd (store stringify c upload_fault insert_fault cid env st)) =
     (case upload_fault of
        Some e \<Rightarrow> files st
      | None \<Rightarrow> (files st)((c, encodeURIComponent cid) \<mapsto>
          \<lparr>body = stringify env, contentType = None, headers = []\<rparr>))"
  by (simp add: store_def storeEnvelope_finish storeEnvelope_error indexEnvelope_def
      split: option.splits)

lemma store_envelopes:
  "envelopes (snd (store stringify c upload_fault insert_fault cid env st)) =
     (case upload_fault of
        Some e \<Rightarrow> envelopes st
      | None \<Rightarrow>
          (case insert_fault of
             Some e \<Rightarrow> envelopes st
           | None \<Rightarrow> envelopes st @ [index_document \<lparr>contentID = cid, envelope = env\<rparr>]))"
  by (simp add: store_def storeEnvelope_finish storeEnvelope_error indexEnvelope_def
      split: option.splits)

lemma store_layoutAssets:
  "layoutAssets (snd (store stringify c upload_fault insert_fault cid env st)) = layoutAssets st"
  by (cases upload_fault; cases insert_fault)
    (simp_all add: store_def storeEnvelope_finish storeEnvelope_error indexEnvelope_def)

lemma pick_object:
  "map_of (pick (JObject obj) keys) k = (if k \<in> set keys then map_of obj k else None)"
  by (induction keys) (auto simp: List.map_filter_simps split: option.splits)

lemma pick_distinct: "distinct keys \<Longrightarrow> distinct (map fst (pick v keys))"
proof (cases v)
  case (JObject obj)
  assume "distinct keys"
  then have "distinct (map fst (List.map_filter (\<lambda>k. map_option (Pair k) (map_of obj k)) keys))"
  proof (induction keys)
    case Nil
    then show ?case by (simp add: List.map_filter_simps)
  next
    case (Cons k ks)
    have "fst ` set (List.map_filter (\<lambda>k. map_option (Pair k) (map_of obj k)) ks) \<subseteq> set ks"
      by (auto simp: List.map_filter_def)
    with Cons show ?case
      by (auto simp: List.map_filter_simps split: option.splits)
  qed
  with JObject show ?thesis by simp
qed simp_all

lemma index_document_map:
  "map_of (index_document \<lparr>contentID = cid, envelope = env\<rparr>) k =
     (if k = ''content_id'' then Some (JString cid)
      else if k \<in> {''title'', ''publish_date'', ''tags'', ''categories''}
      then (case env of JObject obj \<Rightarrow> map_of obj k | _ \<Rightarrow> None)
      else None)"
proof (cases env)
  case (JObject obj)
  then show ?thesis
    by (simp add: index_document_def set_prop_def update_conv' pick_object del: pick.simps)
qed (simp_all add: index_document_def set_prop_def)

lemma index_document_distinct:
  "distinct (map fst (index_document d))"
  by (simp add: index_document_def set_prop_def distinct_update pick_distinct del: pick.simps)

text \<open>
  C8. The document \<open>store\<close> writes to the index is the index document of the content ID and
  the envelope. It has \<open>content_id\<close>, the content ID; each of \<open>title\<close>, \<open>publish_date\<close>,
  \<open>tags\<close> and \<open>categories\<close> that the envelope has, with the envelope's value; no other field;
  and each field once.
\<close>

theorem index_document_projection:
  "envelopes (snd (store stringify c None None cid env st))
     = envelopes st @ [index_document \<lparr>contentID = cid, envelope = env\<rparr>]
   \<and> map_of (index_document \<lparr>contentID = cid, envelope = env\<rparr>) k =
       (if k = ''content_id'' then Some (JString cid)
        else if k \<in> {''title'', ''publish_date'', ''tags'', ''categories''}
        then (case env of JObject obj \<Rightarrow> map_of obj k | _ \<Rightarrow> None)
        else None)
   \<and> distinct (map fst (index_document \<lparr>contentID = cid, envelope = env\<rparr>))"
  by (simp only: store_envelopes index_document_map index_document_distinct option.case
      simp_thms)

text \<open>
  C9. In the waterfall handler the index is written only after the upload has succeeded: when
  the upload fails, the handler fails with the upload's error and the collection of index
  documents is what it was, whatever the insertion would have done.
\<close>

theorem store_upload_failure_skips_index:
  assumes "upload_fault = Some e"
  shows "fst (store stringify c upload_fault insert_fault cid env st) = Failed e
         \<and> envelopes (snd (store stringify c upload_fault insert_fault cid env st)) = envelopes st"
  using assms by (simp add: store_reply store_envelopes)

theorem store_upload_failure_skips_index_witness:
  "\<forall>stringify.
     fst (store stringify ''content'' (Some (Err ''quota'' (Some 507) None)) None ''post-42''
            (JObject [(''title'', JString ''Hi'')])
            \<lparr>files = Map.empty, envelopes = [], layoutAssets = []\<rparr>)
       = Failed (Err ''quota'' (Some 507) None)
     \<and> envelopes (snd (store stringify ''content'' (Some (Err ''quota'' (Some 507) None)) None
            ''post-42'' (JObject [(''title'', JString ''Hi'')])
            \<lparr>files = Map.empty, envelopes = [], layoutAssets = []\<rparr>)) = []"
proof
  fix stringify :: stringifier
  show "fst (store stringify ''content'' (Some (Err ''quota'' (Some 507) None)) None ''post-42''
            (JObject [(''title'', JString ''Hi'')])
            \<lparr>files = Map.empty, envelopes = [], layoutAssets = []\<rparr>)
       = Failed (Err ''quota'' (Some 507) None)
     \<and> envelopes (snd (store stringify ''content'' (Some (Err ''quota'' (Some 507) None)) None
            ''post-42'' (JObject [(''title'', JString ''Hi'')])
            \<lparr>files = Map.empty, envelopes = [], layoutAssets = []\<rparr>)) = []"
    using store_upload_failure_skips_index [OF refl, of stringify "''content''"
        "Err ''quota'' (Some 507) None" None "''post-42''" "JObject [(''title'', JString ''Hi'')]"
        "\<lparr>files = Map.empty, envelopes = [], layoutAssets = []\<rparr>"]
    by simp
qed

lemmas parallel_defs =
  async_parallel_def async_map_def async_map_done_def completion_order_def parallel_reply_def
  storage_storeContent_def storage_indexContent_def storage_deleteContent_def
  storage_unindexContent_def client_upload_def client_removeFile_def Let_def

lemma store_parallel_reply:
  "fst (store_parallel stringify c kv_fault fts_fault (completion_order kv_first) cid env st) =
     Some (case kv_fault of
             None \<Rightarrow> (case fts_fault of None \<Rightarrow> Reply 204 None | Some e \<Rightarrow> Failed e)
           | Some e1 \<Rightarrow>
               (case fts_fault of
                  None \<Rightarrow> Failed e1
                | Some e2 \<Rightarrow> Failed (if kv_first then e1 else e2)))"
  by (cases kv_first; cases kv_fault; cases fts_fault)
    (simp_all add: store_parallel_def parallel_defs)

lemma store_parallel_files:
  "files (snd (store_parallel stringify c kv_fault fts_fault (completion_order kv_first) cid env st)) =
     (case kv_fault of
        Some e \<Rightarrow> files st
      | None \<Rightarrow> (files st)((c, encodeURIComponent cid) \<mapsto>
          \<lparr>body = stringify env, contentType = None, headers = []\<rparr>))"
  by (cases kv_first; cases kv_fault; cases fts_fault)
    (simp_all add: store_parallel_def parallel_defs)

lemma store_parallel_envelopes:
  "envelopes (snd (store_parallel stringify c kv_fault fts_fault (completion_order kv_first) cid env st)) =
     (case fts_fault of
        Some e \<Rightarrow> envelopes st
      | None \<Rightarrow> envelopes st @ [index_document \<lparr>contentID = cid, envelope = env\<rparr>])"
  by (cases kv_first; cases kv_fault; cases fts_fault)
    (simp_all add: store_parallel_def parallel_defs)

lemma key_post_42: "encodeURIComponent ''post-42'' = ''post-42''"
  by (simp add: encodeURIComponent_def unreserved_def)

text \<open>
  C5. A store call succeeds only if both writes succeed; when a write fails the call reports
  the first error met, and the write that succeeded stays in place. For the waterfall
  handler \<open>w\<close>: the reply is 204 exactly when neither write fails; a failed upload is
  reported; a failed insertion after the upload is reported and the uploaded envelope is in
  the blob store. For the parallel handler \<open>p\<close>, the two tasks completing in either order:
  the reply is 204 exactly when neither write fails; the error reported is that of the task
  that fails alone or fails first; the blob store holds the envelope whenever its write
  succeeded, and the index holds the document whenever its write succeeded, whatever the
  other write did.
\<close>

theorem store_dual_write:
  assumes "w = store stringify c upload_fault insert_fault cid env st"
    and "p = store_parallel stringify c kv_fault fts_fault (completion_order kv_first) cid env st"
    and "written = \<lparr>body = stringify env, contentType = None, headers = []\<rparr>"
  shows "(fst w = Reply 204 None \<longleftrightarrow> upload_fault = None \<and> insert_fault = None)
    \<and> (\<forall>e. upload_fault = Some e \<longrightarrow> fst w = Failed e)
    \<and> (\<forall>e. upload_fault = None \<and> insert_fault = Some e \<longrightarrow>
          fst w = Failed e \<and> files (snd w) = (files st)((c, encodeURIComponent cid) \<mapsto> written))
    \<and> (fst p = Some (Reply 204 None) \<longleftrightarrow> kv_fault = None \<and> fts_fault = None)
    \<and> (\<forall>e. kv_fault = Some e \<and> (fts_fault = None \<or> kv_first) \<longrightarrow> fst p = Some (Failed e))
    \<and> (\<forall>e. fts_fault = Some e \<and> (kv_fault = None \<or> \<not> kv_first) \<longrightarrow> fst p = Some (Failed e))
    \<and> (kv_fault = None \<longrightarrow>
          files (snd p) = (files st)((c, encodeURIComponent cid) \<mapsto> written))
    \<and> (fts_fault = None \<longrightarrow>
          envelopes (snd p) = envelopes st @ [index_document \<lparr>contentID = cid, envelope = env\<rparr>])"
  unfolding assms
  by (simp only: store_reply store_files store_parallel_reply store_parallel_files
      store_parallel_envelopes) (auto split: option.splits)

theorem store_dual_write_witness:
  "\<forall>stringify.
     fst (store stringify ''content'' None (Some (Err ''index down'' None None)) ''post-42''
            (JObject [(''title'', JString ''Hi'')])
            \<lparr>files = Map.empty, envelopes = [], layoutAssets = []\<rparr>)
       = Failed (Err ''index down'' None None)
   \<and> files (snd (store stringify ''content'' None (Some (Err ''index down'' None None)) ''post-42''
            (JObject [(''title'', JString ''Hi'')])
            \<lparr>files = Map.empty, envelopes = [], layoutAssets = []\<rparr>))
       = [(''content'', ''post-42'') \<mapsto>
            \<lparr>body = stringify (JObject [(''title'', JString ''Hi'')]), contentType = None,
             headers = []\<rparr>]
   \<and> fst (store_parallel stringify ''content'' None (Some (Err ''index down'' None None))
            (completion_order True) ''post-42'' (JObject [(''title'', JString ''Hi'')])
            \<lparr>files = Map.empty, envelopes = [], layoutAssets = []\<rparr>)
       = Some (Failed (Err ''index down'' None None))
   \<and> files (snd (store_parallel stringify ''content'' None (Some (Err ''index down'' None None))
            (completion_order True) ''post-42'' (JObject [(''title'', JString ''Hi'')])
            \<lparr>files = Map.empty, envelopes = [], layoutAssets = []\<rparr>))
       = [(''content'', ''post-42'') \<mapsto>
            \<lparr>body = stringify (JObject [(''title'', JString ''Hi'')]), contentType = None,
             headers = []\<rparr>]"
proof
  fix stringify :: stringifier
  show "fst (store stringify ''content'' None (Some (Err ''index down'' None None)) ''post-42''
            (JObject [(''title'', JString ''Hi'')])
            \<lparr>files = Map.empty, envelopes = [], layoutAssets = []\<rparr>)
       = Failed (Err ''index down'' None None)
   \<and> files (snd (store stringify ''content'' None (Some (Err ''index down'' None None)) ''post-42''
            (JObject [(''title'', JString ''Hi'')])
            \<lparr>files = Map.empty, envelopes = [], layoutAssets = []\<rparr>))
       = [(''content'', ''post-42'') \<mapsto>
            \<lparr>body = stringify (JObject [(''title'', JString ''Hi'')]), contentType = None,
             headers = []\<rparr>]
   \<and> fst (store_parallel stringify ''content'' None (Some (Err ''index down'' None None))
            (completion_order True) ''post-42'' (JObject [(''title'', JString ''Hi'')])
            \<lparr>files = Map.empty, envelopes = [], layoutAssets = []\<rparr>)
       = Some (Failed (Err ''index down'' None None))
   \<and> files (snd (store_parallel stringify ''content'' None (Some (Err ''index down'' None None))
            (completion_order True) ''post-42'' (JObject [(''title'', JString ''Hi'')])
            \<lparr>files = Map.empty, envelopes = [], layoutAssets = []\<rparr>))
       = [(''content'', ''post-42'') \<mapsto>
            \<lparr>body = stringify (JObject [(''title'', JString ''Hi'')]), contentType = None,
             headers = []\<rparr>]"
    using store_dual_write [OF refl refl refl, of stringify "''content''" None
        "Some (Err ''index down'' None None)" "''post-42''" "JObject [(''title'', JString ''Hi'')]"
        "\<lparr>files = Map.empty, envelopes = [], layoutAssets = []\<rparr>"
        None "Some (Err ''index down'' None None)" True]
    by (simp add: key_post_42)
qed

lemma delete_envelopes:
  "envelopes (snd (delete c remove_fault cid st)) = envelopes st"
  by (cases remove_fault) (simp_all add: delete_def client_removeFile_def)

lemma delete_files:
  "files (snd (delete c None cid st)) = (files st)((c, encodeURIComponent cid) := None)"
  by (simp add: delete_def client_removeFile_def)

lemma delete_reply:
  "fst (delete c remove_fault cid st) =
     (case remove_fault of Some e \<Rightarrow> Failed e | None \<Rightarrow> Reply 204 None)"
  by (cases remove_fault) (simp_all add: delete_def client_removeFile_def)

lemma retrieve_absent:
  "files st (c, encodeURIComponent cid) = None \<Longrightarrow>
     retrieve parse c None find_fault cid st = Reply 404 None"
  by (simp add: retrieve_def downloadContent_def client_download_def statusCode_or_500_def)

lemma retrieve_present:
  assumes "files st (c, encodeURIComponent cid) = Some obj"
    and "parse (body obj) = Some env"
  shows "retrieve parse c None None cid st =
           Reply 200 (Some (JObject [(''envelope'', env),
                                     (''assets'', JObject (collect_assets (layoutAssets st)))]))"
  using assms
  by (simp add: retrieve_def downloadContent_def client_download_def injectAssetVars_def
      set_prop_def)

text \<open>
  The parallel delete handler, over the storage module as the spec describes it, removes
  the object and the index documents of the content ID.
\<close>

lemma delete_parallel_removes_both:
  "delete_parallel c None None (completion_order kv_first) cid st =
     (Some (Reply 204 None),
      st\<lparr>files := (files st)((c, encodeURIComponent cid) := None),
         envelopes := filter (\<lambda>d. get_prop d ''content_id'' \<noteq> JString cid) (envelopes st)\<rparr>)"
  by (cases kv_first) (simp_all add: delete_parallel_def parallel_defs)

text \<open>
  C3. A delete should remove the object of the blob store and the document of the index. The
  first delete handler removes the object alone: after \<open>post-42\<close> is stored and then deleted,
  both with success, the blob store has no object, a retrieve answers 404, and the index
  still holds the document that \<open>store\<close> wrote for \<open>post-42\<close>.
\<close>

theorem delete_leaves_index_document:
  "delete ''content'' None ''post-42''
     (snd (store stringify ''content'' None None ''post-42''
             (JObject [(''title'', JString ''Hi'')])
             \<lparr>files = Map.empty, envelopes = [], layoutAssets = []\<rparr>))
   = (Reply 204 None,
      \<lparr>files = Map.empty,
       envelopes = [[(''title'', JString ''Hi''), (''content_id'', JString ''post-42'')]],
       layoutAssets = []\<rparr>)
   \<and> retrieve parse ''content'' None None ''post-42''
       \<lparr>files = Map.empty,
        envelopes = [[(''title'', JString ''Hi''), (''content_id'', JString ''post-42'')]],
        layoutAssets = []\<rparr>
     = Reply 404 None"
  by (simp add: delete_def client_removeFile_def store_def storeEnvelope_finish
      indexEnvelope_def index_document_def set_prop_def List.map_filter_simps key_post_42
      retrieve_absent)

lemma retrieve_after_store:
  assumes "parse (stringify env) = Some env"
  shows "retrieve parse c None None cid (snd (store stringify c None None cid env st))
         = Reply 200 (Some (JObject [(''envelope'', env),
                                      (''assets'', JObject (collect_assets (layoutAssets st)))]))"
proof -
  let ?st = "snd (store stringify c None None cid env st)"
  have "files ?st (c, encodeURIComponent cid)
          = Some \<lparr>body = stringify env, contentType = None, headers = []\<rparr>"
    by (simp add: store_files)
  from retrieve_present [OF this, of parse env] assms
  show ?thesis by (simp add: store_layoutAssets)
qed

text \<open>
  C4, as the code has it. When \<open>JSON.parse\<close> gives back the envelope from the text
  \<open>JSON.stringify\<close> made of it, a store without faults answers 204, and a retrieve of the
  same content ID then answers 200 with an object of exactly two fields: \<open>envelope\<close>, whose
  value is the stored envelope unchanged, and \<open>assets\<close>. The fields of the envelope are
  nested under \<open>envelope\<close>; they are not top-level fields of the answer.
\<close>

theorem store_retrieve_roundtrip:
  assumes "parse (stringify env) = Some env"
  shows "fst (store stringify c None None cid env st) = Reply 204 None
     \<and> retrieve parse c None None cid (snd (store stringify c None None cid env st))
         = Reply 200 (Some (JObject [(''envelope'', env),
                                      (''assets'', JObject (collect_assets (layoutAssets st)))]))"
  using assms by (simp add: store_reply retrieve_after_store)

theorem store_retrieve_roundtrip_witness:
  \<open>fst (store (\<lambda>v. ''{"title":"Hi"}'') ''content'' None None ''post-42''
          (JObject [(''title'', JString ''Hi'')])
          \<lparr>files = Map.empty, envelopes = [],
           layoutAssets = [[(''key'', JString ''logo''),
                            (''publicURL'', JString ''https://cdn/logo-abc.png'')]]\<rparr>)
     = Reply 204 None
   \<and> retrieve [''{"title":"Hi"}'' \<mapsto> JObject [(''title'', JString ''Hi'')]] ''content'' None None
       ''post-42''
       (snd (store (\<lambda>v. ''{"title":"Hi"}'') ''content'' None None ''post-42''
               (JObject [(''title'', JString ''Hi'')])
               \<lparr>files = Map.empty, envelopes = [],
                layoutAssets = [[(''key'', JString ''logo''),
                                 (''publicURL'', JString ''https://cdn/logo-abc.png'')]]\<rparr>))
     = Reply 200 (Some (JObject
         [(''envelope'', JObject [(''title'', JString ''Hi'')]),
          (''assets'', JObject [(''[object Object]'', JString ''https://cdn/logo-abc.png'')])]))\<close>
proof -
  let ?E = "JObject [(''title'', JString ''Hi'')]"
  let ?st = "\<lparr>files = Map.empty, envelopes = [],
           layoutAssets = [[(''key'', JString ''logo''),
                            (''publicURL'', JString ''https://cdn/logo-abc.png'')]]\<rparr>"
  have parse: \<open>[''{"title":"Hi"}'' \<mapsto> ?E] ((\<lambda>v. ''{"title":"Hi"}'') ?E) = Some ?E\<close>
    by simp
  have assets: "collect_assets (layoutAssets ?st)
                  = [(''[object Object]'', JString ''https://cdn/logo-abc.png'')]"
    by (simp add: collect_assets_def set_prop_def get_prop_def object_toString_def)
  show ?thesis
    using store_retrieve_roundtrip [where parse = \<open>[''{"title":"Hi"}'' \<mapsto> ?E]\<close>
        and stringify = \<open>\<lambda>v. ''{"title":"Hi"}''\<close> and env = ?E and c = "''content''"
        and cid = "''post-42''" and st = ?st, OF parse]
    by (simp only: assets)
qed

text \<open>
  C4, as the claim states it, fails: the answer to the retrieve of \<open>post-42\<close>, stored with
  the envelope of the one field \<open>title\<close>, has the top-level fields \<open>envelope\<close> and \<open>assets\<close>,
  which are not the fields of the envelope and \<open>assets\<close>.
\<close>

theorem store_retrieve_nests_envelope:
  \<open>retrieve [''{"title":"Hi"}'' \<mapsto> JObject [(''title'', JString ''Hi'')]] ''content'' None None
      ''post-42''
      (snd (store (\<lambda>v. ''{"title":"Hi"}'') ''content'' None None ''post-42''
              (JObject [(''title'', JString ''Hi'')])
              \<lparr>files = Map.empty, envelopes = [], layoutAssets = []\<rparr>))
    = Reply 200 (Some (JObject [(''envelope'', JObject [(''title'', JString ''Hi'')]),
                                (''assets'', JObject [])]))
   \<and> set (field_names (JObject [(''envelope'', JObject [(''title'', JString ''Hi'')]),
                                 (''assets'', JObject [])]))
       \<noteq> set (field_names (JObject [(''title'', JString ''Hi'')])) \<union> {''assets''}\<close>
proof
  let ?E = "JObject [(''title'', JString ''Hi'')]"
  let ?st = "\<lparr>files = Map.empty, envelopes = [], layoutAssets = []\<rparr>"
  have parse: \<open>[''{"title":"Hi"}'' \<mapsto> ?E] ((\<lambda>v. ''{"title":"Hi"}'') ?E) = Some ?E\<close>
    by simp
  have assets: "collect_assets (layoutAssets ?st) = []"
    by (simp add: collect_assets_def)
  show \<open>retrieve [''{"title":"Hi"}'' \<mapsto> ?E] ''content'' None None ''post-42''
      (snd (store (\<lambda>v. ''{"title":"Hi"}'') ''content'' None None ''post-42'' ?E ?st))
    = Reply 200 (Some (JObject [(''envelope'', ?E), (''assets'', JObject [])]))\<close>
    using retrieve_after_store [where parse = \<open>[''{"title":"Hi"}'' \<mapsto> ?E]\<close>
        and stringify = \<open>\<lambda>v. ''{"title":"Hi"}''\<close> and env = ?E and c = "''content''"
        and cid = "''post-42''" and st = ?st, OF parse]
    by (simp only: assets)
  have "''envelope'' \<notin> set (field_names ?E) \<union> {''assets''}" by simp
  moreover have "''envelope'' \<in> set (field_names (JObject [(''envelope'', ?E), (''assets'', JObject [])]))"
    by simp
  ultimately show "set (field_names (JObject [(''envelope'', ?E), (''assets'', JObject [])]))
       \<noteq> set (field_names ?E) \<union> {''assets''}"
    by metis
qed

end
